theory Spec2Isabelle
  imports Complex_Main "HOL-Library.Word"
begin

section \<open>Voice pipeline: speech-to-text, response engine, text-to-speech, orchestrator\<close>

text \<open>
  A shallow embedding of \<^verbatim>\<open>src/stt_whisper.py\<close>, \<^verbatim>\<open>src/gemma_client.py\<close>,
  \<^verbatim>\<open>src/tts_elevenlabs.py\<close> and \<^verbatim>\<open>src/main.py\<close>.

  \<^item> The external engines (sounddevice, Whisper, the Gemini API, ElevenLabs, the file
    system) are the fields of an environment record \<open>env\<close>; each returns either the
    exception it raises (\<open>Inl\<close>) or its value (\<open>Inr\<close>).
  \<^item> Python list objects live in a store (\<open>lists\<close>, addressed by \<open>addr\<close>), because
    \<^verbatim>\<open>generate_response\<close> appends to a list that the caller may share with it.
  \<^item> Every call of an external engine and every diagnostic \<^verbatim>\<open>print\<close> of a guard or
    of an \<^verbatim>\<open>except\<close> branch is appended to \<open>trace\<close>; the progress messages printed
    on the success paths are left out.
  \<^item> A function whose body can raise returns \<open>exn + 'a\<close> next to the world it leaves
    behind; \<^verbatim>\<open>except Exception\<close> is a case distinction on that sum.
  \<^item> Strings are lists of 8-bit characters read as the code points U+0000 to U+00FF.
    Messages that the source writes in Korean are given in English.
\<close>

subsection \<open>Python values\<close>

datatype exn =
    ValueError string
  | RuntimeError string
  | TypeError string
  | AttributeError string
  | OSError string
  | EngineError string

text \<open>\<^verbatim>\<open>str(e)\<close>\<close>

fun exn_str :: "exn \<Rightarrow> string" where
  "exn_str (ValueError m) = m"
| "exn_str (RuntimeError m) = m"
| "exn_str (TypeError m) = m"
| "exn_str (AttributeError m) = m"
| "exn_str (OSError m) = m"
| "exn_str (EngineError m) = m"

text \<open>\<^verbatim>\<open>str.isspace\<close> on the code points below U+0100.\<close>

definition is_space :: "char \<Rightarrow> bool" where
  "is_space c \<longleftrightarrow>
     c \<in> set [CHR 0x09, CHR 0x0A, CHR 0x0B, CHR 0x0C, CHR 0x0D,
              CHR 0x1C, CHR 0x1D, CHR 0x1E, CHR 0x1F, CHR 0x20, CHR 0x85, CHR 0xA0]"

text \<open>\<^verbatim>\<open>str.strip()\<close>\<close>

definition strip :: "string \<Rightarrow> string" where
  "strip s = rev (dropWhile is_space (rev (dropWhile is_space s)))"

text \<open>
  \<^verbatim>\<open>xs[start:]\<close> for a Python integer \<open>start\<close>: a negative start counts from the end
  and is clipped at the front of the list.
\<close>

definition slice_from :: "'a list \<Rightarrow> int \<Rightarrow> 'a list" where
  "slice_from xs start =
     (if start < 0 then drop (nat (max (int (length xs) + start) 0)) xs
      else drop (nat start) xs)"

text \<open>\<^verbatim>\<open>a or b\<close> on an optional string: \<^verbatim>\<open>None\<close> and the empty string are falsy.\<close>

fun str_or :: "string option \<Rightarrow> string \<Rightarrow> string" where
  "str_or None d = d"
| "str_or (Some s) d = (if s = [] then d else s)"

type_synonym byte = "8 word"
type_synonym bytes = "byte list"

text \<open>
  What the synthesis engine hands back: a \<^verbatim>\<open>bytes\<close> object, or a one-shot iterator that
  yields the listed chunks and then either stops or raises.
\<close>

datatype py_audio =
    PyBytes bytes
  | PyIter "bytes list" "exn option"

text \<open>Truth value of an optional audio object: \<^verbatim>\<open>None\<close> and \<^verbatim>\<open>b''\<close> are falsy.\<close>

fun audio_truthy :: "py_audio option \<Rightarrow> bool" where
  "audio_truthy None = False"
| "audio_truthy (Some (PyBytes b)) = (b \<noteq> [])"
| "audio_truthy (Some (PyIter cs e)) = True"

subsection \<open>Messages, model input and model output\<close>

text \<open>\<^verbatim>\<open>{"role": r, "parts": [{"text": t}, ...]}\<close>\<close>

record message =
  role :: string
  parts :: "string list"

definition user_message :: "string \<Rightarrow> message" where
  "user_message t = \<lparr>role = ''user'', parts = [t]\<rparr>"

definition model_message :: "string \<Rightarrow> message" where
  "model_message t = \<lparr>role = ''model'', parts = [t]\<rparr>"

datatype content_input =
    Messages "message list"
  | Prompt string

text \<open>
  The response object of the language-model API, as far as the code reads it:
  \<^verbatim>\<open>response.candidates[0].content.parts[i].text\<close>, where each attribute may be
  \<^verbatim>\<open>None\<close>.
\<close>

datatype part = Part (part_text: "string option")
datatype content = Content (content_parts: "part list option")
datatype candidate = Candidate (candidate_content: "content option")
datatype response = Response (candidates: "candidate list option")

subsection \<open>Audio input\<close>

type_synonym samples = "rat list"

datatype stt_input =
    FromPath string
  | FromData samples

record device_info =
  name :: string
  max_input_channels :: int

record tts_request =
  req_text :: string
  req_voice_id :: string
  req_model_id :: string

subsection \<open>The world and the environment\<close>

type_synonym addr = nat

datatype event =
    Print string
  | QueryDevices
  | SdRec int int
  | SttTranscribe stt_input
  | LlmGenerate content_input
  | TtsConvert tts_request
  | TtsStream tts_request
  | OpenWb string
  | Play py_audio
  | Stream py_audio

record world =
  lists :: "addr \<Rightarrow> message list"
  next_addr :: addr
  trace :: "event list"
  files :: "string \<rightharpoonup> bytes"

record env =
  sd_query_devices :: "exn + device_info list"
  sd_rec :: "int \<Rightarrow> int \<Rightarrow> exn + samples"
  path_exists :: "string \<Rightarrow> bool"
  whisper_transcribe :: "stt_input \<Rightarrow> exn + string"
  llm_generate_content :: "content_input \<Rightarrow> exn + response"
  tts_convert :: "tts_request \<Rightarrow> exn + py_audio"
  tts_stream :: "tts_request \<Rightarrow> exn + py_audio"
  open_wb :: "string \<Rightarrow> exn option"
  play :: "py_audio \<Rightarrow> exn option"
  stream :: "py_audio \<Rightarrow> exn option"

definition log :: "event \<Rightarrow> world \<Rightarrow> world" where
  "log ev w = w\<lparr>trace := trace w @ [ev]\<rparr>"

text \<open>A new list object.\<close>

definition new_list :: "message list \<Rightarrow> world \<Rightarrow> addr \<times> world" where
  "new_list xs w =
     (next_addr w, w\<lparr>lists := (lists w)(next_addr w := xs), next_addr := Suc (next_addr w)\<rparr>)"

text \<open>\<^verbatim>\<open>xs.append(m)\<close>, in place.\<close>

definition list_append :: "addr \<Rightarrow> message \<Rightarrow> world \<Rightarrow> world" where
  "list_append a m w = w\<lparr>lists := (lists w)(a := lists w a @ [m])\<rparr>"

text \<open>Truth value of an optional list reference: \<^verbatim>\<open>None\<close> and \<^verbatim>\<open>[]\<close> are falsy.\<close>

fun list_truthy :: "world \<Rightarrow> addr option \<Rightarrow> bool" where
  "list_truthy w None = False"
| "list_truthy w (Some a) = (lists w a \<noteq> [])"

section \<open>gemma\_client.py\<close>

record gemma_client =
  model_name :: string
  conversation_history :: addr

text \<open>\<^verbatim>\<open>GemmaClient.__init__\<close>, once the API key is present.\<close>

definition new_gemma_client :: "string \<Rightarrow> world \<Rightarrow> gemma_client \<times> world" where
  "new_gemma_client model w =
     (let (a, w1) = new_list [] w
      in (\<lparr>model_name = model, conversation_history = a\<rparr>, w1))"

text \<open>The stored history, read through the client's reference.\<close>

definition history :: "world \<Rightarrow> gemma_client \<Rightarrow> message list" where
  "history w c = lists w (conversation_history c)"

text \<open>\<^verbatim>\<open>_update_conversation_history(user_input, assistant_response, max_history)\<close>\<close>

definition update_conversation_history ::
  "gemma_client \<Rightarrow> string \<Rightarrow> string \<Rightarrow> int \<Rightarrow> world \<Rightarrow> gemma_client \<times> world"
where
  "update_conversation_history c user_input assistant_response max_history w =
     (let w1 = list_append (conversation_history c) (user_message user_input) w;
          w2 = list_append (conversation_history c) (model_message assistant_response) w1
      in if int (length (history w2 c)) > max_history * 2
         then (let (a, w3) = new_list (slice_from (history w2 c) (- max_history * 2)) w2
               in (c\<lparr>conversation_history := a\<rparr>, w3))
         else (c, w2))"

definition clear_conversation_history :: "gemma_client \<Rightarrow> world \<Rightarrow> gemma_client \<times> world" where
  "clear_conversation_history c w =
     (let (a, w1) = new_list [] w in (c\<lparr>conversation_history := a\<rparr>, w1))"

text \<open>
  Lines 52 to 59 of \<^verbatim>\<open>generate_response\<close>: the input of the model. \<^verbatim>\<open>messages\<close> is
  the caller's list itself when \<^verbatim>\<open>context\<close> is truthy, and a fresh copy of the stored
  history otherwise.
\<close>

definition prepare_content ::
  "gemma_client \<Rightarrow> string \<Rightarrow> addr option \<Rightarrow> world \<Rightarrow> content_input \<times> world"
where
  "prepare_content c prompt context w =
     (if list_truthy w context \<or> list_truthy w (Some (conversation_history c))
      then (let (messages, w1) =
                  (if list_truthy w context then (the context, w)
                   else new_list (history w c) w);
                w2 = list_append messages (user_message prompt) w1
            in (Messages (lists w2 messages), w2))
      else (Prompt prompt, w))"

text \<open>Lines 69 to 73: the text of the first candidate's parts.\<close>

fun part_texts :: "part list \<Rightarrow> string" where
  "part_texts [] = []"
| "part_texts (Part None # ps) = part_texts ps"
| "part_texts (Part (Some t) # ps) = t @ part_texts ps"

definition extract_text :: "response \<Rightarrow> exn + string" where
  "extract_text r =
     (case candidates r of
        None \<Rightarrow> Inr []
      | Some [] \<Rightarrow> Inr []
      | Some (cand # _) \<Rightarrow>
          (case candidate_content cand of
             None \<Rightarrow> Inl (AttributeError ''NoneType object has no attribute parts'')
           | Some ct \<Rightarrow>
               (case content_parts ct of
                  None \<Rightarrow> Inl (TypeError ''NoneType object is not iterable'')
                | Some ps \<Rightarrow> Inr (part_texts ps))))"

definition no_response_text :: string where
  "no_response_text = ''Sorry, I couldn't generate a response. Please try again.''"

definition error_reply :: "exn \<Rightarrow> string" where
  "error_reply e = ''An error occurred: '' @ exn_str e"

text \<open>The \<^verbatim>\<open>try\<close> block of \<^verbatim>\<open>generate_response\<close>.\<close>

definition generate_response_body ::
  "env \<Rightarrow> gemma_client \<Rightarrow> string \<Rightarrow> addr option \<Rightarrow> world
     \<Rightarrow> (exn + string) \<times> gemma_client \<times> world"
where
  "generate_response_body E c prompt context w =
     (let (content_input, w1) = prepare_content c prompt context w;
          w2 = log (LlmGenerate content_input) w1
      in case llm_generate_content E content_input of
           Inl e \<Rightarrow> (Inl e, c, w2)
         | Inr response \<Rightarrow>
             (case extract_text response of
                Inl e \<Rightarrow> (Inl e, c, w2)
              | Inr content_text \<Rightarrow>
                  if content_text \<noteq> []
                  then (let (c1, w3) =
                              (if \<not> list_truthy w2 context
                               then update_conversation_history c prompt content_text 10 w2
                               else (c, w2))
                        in (Inr (strip content_text), c1, w3))
                  else (Inr no_response_text, c, w2)))"

text \<open>\<^verbatim>\<open>generate_response(prompt, context)\<close> with its \<^verbatim>\<open>except Exception\<close> branch.\<close>

definition generate_response ::
  "env \<Rightarrow> gemma_client \<Rightarrow> string \<Rightarrow> addr option \<Rightarrow> world
     \<Rightarrow> (exn + string) \<times> gemma_client \<times> world"
where
  "generate_response E c prompt context w =
     (case generate_response_body E c prompt context w of
        (Inl e, c1, w1) \<Rightarrow>
          (Inr (error_reply e), c1, log (Print (''Error generating response: '' @ exn_str e)) w1)
      | (Inr text, c1, w1) \<Rightarrow> (Inr text, c1, w1))"

section \<open>stt\_whisper.py\<close>

record whisper_stt =
  device_id :: "int option"

definition sample_rate :: int where
  "sample_rate = 16000"

text \<open>\<^verbatim>\<open>int(x)\<close> on a number: truncation towards zero. Durations are exact rationals.\<close>

definition py_int :: "rat \<Rightarrow> int" where
  "py_int x = (if 0 \<le> x then \<lfloor>x\<rfloor> else \<lceil>x\<rceil>)"

text \<open>\<^verbatim>\<open>int(0.1 * self.sample_rate)\<close>\<close>

definition trial_frames :: int where
  "trial_frames = py_int (1 / 10 * of_int sample_rate)"

text \<open>
  The \<^verbatim>\<open>for i, device in enumerate(devices)\<close> loop of \<^verbatim>\<open>_find_working_device\<close>, from
  index \<open>i\<close> on: a device with input channels is given a trial recording; the first
  trial that does not raise ends the loop.
\<close>

fun probe_devices :: "env \<Rightarrow> int \<Rightarrow> device_info list \<Rightarrow> world \<Rightarrow> int option \<times> world" where
  "probe_devices E i [] w = (None, w)"
| "probe_devices E i (device # devices) w =
     (if max_input_channels device > 0
      then (let w1 = log (SdRec trial_frames i) w
            in case sd_rec E trial_frames i of
                 Inr test_audio \<Rightarrow> (Some i, w1)
               | Inl e \<Rightarrow> probe_devices E (i + 1) devices w1)
      else probe_devices E (i + 1) devices w)"

definition find_working_device :: "env \<Rightarrow> world \<Rightarrow> int option \<times> world" where
  "find_working_device E w =
     (let w1 = log QueryDevices w
      in case sd_query_devices E of
           Inl e \<Rightarrow> (None, log (Print (''Device detection error: '' @ exn_str e)) w1)
         | Inr devices \<Rightarrow>
             (case probe_devices E 0 devices w1 of
                (Some i, w2) \<Rightarrow> (Some i, w2)
              | (None, w2) \<Rightarrow> (None, log (Print ''No working audio input device found.'') w2)))"

text \<open>\<^verbatim>\<open>WhisperSTT.__init__(model_size, device_id)\<close>\<close>

definition new_whisper_stt :: "env \<Rightarrow> int option \<Rightarrow> world \<Rightarrow> whisper_stt \<times> world" where
  "new_whisper_stt E dev w =
     (case dev of
        None \<Rightarrow> (let (d, w1) = find_working_device E w in (\<lparr>device_id = d\<rparr>, w1))
      | Some d \<Rightarrow> (\<lparr>device_id = Some d\<rparr>, w))"

definition no_device_message :: string where
  "no_device_message = ''No working audio input device. Check the microphone permission.''"

text \<open>\<^verbatim>\<open>record_audio(duration)\<close>; \<open>Inr None\<close> is the \<^verbatim>\<open>return None\<close> of its handler.\<close>

definition record_audio ::
  "env \<Rightarrow> whisper_stt \<Rightarrow> rat \<Rightarrow> world \<Rightarrow> (exn + samples option) \<times> world"
where
  "record_audio E s duration w =
     (case device_id s of
        None \<Rightarrow> (Inl (RuntimeError no_device_message), w)
      | Some d \<Rightarrow>
          (let frames = py_int (duration * of_int sample_rate);
               w1 = log (SdRec frames d) w
           in case sd_rec E frames d of
                Inr audio_data \<Rightarrow> (Inr (Some audio_data), w1)
              | Inl e \<Rightarrow> (Inr None, log (Print (''Error during recording: '' @ exn_str e)) w1)))"

text \<open>Truth value of an optional string.\<close>

fun str_truthy :: "string option \<Rightarrow> bool" where
  "str_truthy None = False"
| "str_truthy (Some s) = (s \<noteq> [])"

definition whisper_call :: "env \<Rightarrow> stt_input \<Rightarrow> world \<Rightarrow> (exn + string) \<times> world" where
  "whisper_call E inp w =
     (case whisper_transcribe E inp of
        Inl e \<Rightarrow> (Inl e, log (SttTranscribe inp) w)
      | Inr text \<Rightarrow> (Inr (strip text), log (SttTranscribe inp) w))"

text \<open>The \<^verbatim>\<open>try\<close> block of \<^verbatim>\<open>transcribe_audio\<close>.\<close>

definition transcribe_audio_body ::
  "env \<Rightarrow> samples option \<Rightarrow> string option \<Rightarrow> world \<Rightarrow> (exn + string) \<times> world"
where
  "transcribe_audio_body E audio_data audio_path w =
     (if str_truthy audio_path \<and> path_exists E (the audio_path)
      then whisper_call E (FromPath (the audio_path)) w
      else (case audio_data of
              Some d \<Rightarrow> whisper_call E (FromData d) w
            | None \<Rightarrow> (Inl (ValueError ''Either audio_data or audio_path must be provided''), w)))"

text \<open>\<^verbatim>\<open>transcribe_audio(audio_data, audio_path)\<close> with its \<^verbatim>\<open>except Exception\<close> branch.\<close>

definition transcribe_audio ::
  "env \<Rightarrow> samples option \<Rightarrow> string option \<Rightarrow> world \<Rightarrow> (exn + string) \<times> world"
where
  "transcribe_audio E audio_data audio_path w =
     (case transcribe_audio_body E audio_data audio_path w of
        (Inl e, w1) \<Rightarrow> (Inr [], log (Print (''Error during transcription: '' @ exn_str e)) w1)
      | (Inr text, w1) \<Rightarrow> (Inr text, w1))"

section \<open>tts\_elevenlabs.py\<close>

record elevenlabs_tts =
  tts_voice_id :: string
  tts_model :: string

text \<open>\<^verbatim>\<open>ElevenLabsTTS.__init__(voice_id, model)\<close>, once the API key is present.\<close>

definition new_elevenlabs_tts :: "string option \<Rightarrow> string option \<Rightarrow> elevenlabs_tts" where
  "new_elevenlabs_tts voice_id model =
     \<lparr>tts_voice_id = str_or voice_id ''uyVNoMrnUku1dZyVEXwD'',
      tts_model = str_or model ''eleven_flash_v2_5''\<rparr>"

text \<open>
  \<^verbatim>\<open>for chunk in audio: f.write(chunk)\<close> on the open file \<open>path\<close>. Iterating a
  \<^verbatim>\<open>bytes\<close> object yields integers, which \<^verbatim>\<open>f.write\<close> rejects; an iterator is
  used up by the loop. The result is the audio object as the loop leaves it.
\<close>

definition file_write :: "string \<Rightarrow> bytes \<Rightarrow> world \<Rightarrow> world" where
  "file_write path chunk w =
     w\<lparr>files := (files w)(path \<mapsto> (case files w path of None \<Rightarrow> chunk | Some old \<Rightarrow> old @ chunk))\<rparr>"

fun write_each :: "string \<Rightarrow> bytes list \<Rightarrow> world \<Rightarrow> world" where
  "write_each path [] w = w"
| "write_each path (chunk # chunks) w = write_each path chunks (file_write path chunk w)"

fun write_chunks :: "string \<Rightarrow> py_audio \<Rightarrow> world \<Rightarrow> (exn + py_audio) \<times> world" where
  "write_chunks path (PyBytes []) w = (Inr (PyBytes []), w)"
| "write_chunks path (PyBytes (b # bs)) w =
     (Inl (TypeError ''a bytes-like object is required, not int''), w)"
| "write_chunks path (PyIter chunks None) w = (Inr (PyIter [] None), write_each path chunks w)"
| "write_chunks path (PyIter chunks (Some e)) w = (Inl e, write_each path chunks w)"

text \<open>
  \<^verbatim>\<open>os.makedirs(...)\<close>, \<^verbatim>\<open>open(save_path, 'wb')\<close> and the write loop. Opening
  truncates the file.
\<close>

definition save_audio_file :: "env \<Rightarrow> string \<Rightarrow> py_audio \<Rightarrow> world \<Rightarrow> (exn + py_audio) \<times> world" where
  "save_audio_file E path audio w =
     (let w1 = log (OpenWb path) w
      in case open_wb E path of
           Some e \<Rightarrow> (Inl e, w1)
         | None \<Rightarrow> write_chunks path audio (w1\<lparr>files := (files w1)(path \<mapsto> [])\<rparr>))"

text \<open>\<^verbatim>\<open>b''.join(audio_stream)\<close>\<close>

fun join_bytes :: "py_audio \<Rightarrow> exn + bytes" where
  "join_bytes (PyBytes []) = Inr []"
| "join_bytes (PyBytes (b # bs)) =
     Inl (TypeError ''sequence item 0: expected a bytes-like object, int found'')"
| "join_bytes (PyIter chunks None) = Inr (concat chunks)"
| "join_bytes (PyIter chunks (Some e)) = Inl e"

text \<open>The \<^verbatim>\<open>try\<close> block of \<^verbatim>\<open>text_to_speech\<close>.\<close>

definition text_to_speech_body ::
  "env \<Rightarrow> elevenlabs_tts \<Rightarrow> string \<Rightarrow> string option \<Rightarrow> string option \<Rightarrow> string option \<Rightarrow> bool
     \<Rightarrow> world \<Rightarrow> (exn + py_audio option) \<times> world"
where
  "text_to_speech_body E t text voice_id model save_path stream_audio w =
     (let current_voice = str_or voice_id (tts_voice_id t);
          current_model = str_or model (tts_model t);
          req = \<lparr>req_text = text, req_voice_id = current_voice, req_model_id = current_model\<rparr>
      in if stream_audio
         then (let w1 = log (TtsStream req) w
               in case tts_stream E req of
                    Inl e \<Rightarrow> (Inl e, w1)
                  | Inr audio_stream \<Rightarrow>
                      if str_truthy save_path
                      then (case save_audio_file E (the save_path) audio_stream w1 of
                              (Inl e, w2) \<Rightarrow> (Inl e, w2)
                            | (Inr used, w2) \<Rightarrow> (Inr None, w2))
                      else (case join_bytes audio_stream of
                              Inl e \<Rightarrow> (Inl e, w1)
                            | Inr audio_bytes \<Rightarrow> (Inr (Some (PyBytes audio_bytes)), w1)))
         else (let w1 = log (TtsConvert req) w
               in case tts_convert E req of
                    Inl e \<Rightarrow> (Inl e, w1)
                  | Inr audio \<Rightarrow>
                      if str_truthy save_path
                      then (case save_audio_file E (the save_path) audio w1 of
                              (Inl e, w2) \<Rightarrow> (Inl e, w2)
                            | (Inr used, w2) \<Rightarrow> (Inr (Some used), w2))
                      else (Inr (Some audio), w1)))"

text \<open>
  \<^verbatim>\<open>text_to_speech(text, voice_id, model, save_path, stream_audio)\<close>: the guard on
  blank text, the body, and the \<^verbatim>\<open>except Exception\<close> branch.
\<close>

definition text_to_speech ::
  "env \<Rightarrow> elevenlabs_tts \<Rightarrow> string \<Rightarrow> string option \<Rightarrow> string option \<Rightarrow> string option \<Rightarrow> bool
     \<Rightarrow> world \<Rightarrow> (exn + py_audio option) \<times> world"
where
  "text_to_speech E t text voice_id model save_path stream_audio w =
     (if strip text = [] then (Inr None, log (Print ''No text provided for TTS'') w)
      else (case text_to_speech_body E t text voice_id model save_path stream_audio w of
              (Inl e, w1) \<Rightarrow>
                (Inr None, log (Print (''Error in text-to-speech conversion: '' @ exn_str e)) w1)
            | (Inr audio, w1) \<Rightarrow> (Inr audio, w1)))"

text \<open>\<^verbatim>\<open>play_audio(audio_data)\<close>\<close>

definition play_audio :: "env \<Rightarrow> py_audio option \<Rightarrow> world \<Rightarrow> (exn + unit) \<times> world" where
  "play_audio E audio_data w =
     (if \<not> audio_truthy audio_data then (Inr (), log (Print ''No audio data to play'') w)
      else (let w1 = log (Play (the audio_data)) w
            in case play E (the audio_data) of
                 Some e \<Rightarrow> (Inr (), log (Print (''Error playing audio: '' @ exn_str e)) w1)
               | None \<Rightarrow> (Inr (), w1)))"

text \<open>\<^verbatim>\<open>speak(text, voice_id, model, stream_audio)\<close>; it has no \<^verbatim>\<open>try\<close> of its own.\<close>

definition speak ::
  "env \<Rightarrow> elevenlabs_tts \<Rightarrow> string \<Rightarrow> string option \<Rightarrow> string option \<Rightarrow> bool
     \<Rightarrow> world \<Rightarrow> (exn + unit) \<times> world"
where
  "speak E t text voice_id model stream_audio w =
     (if stream_audio
      then (let req = \<lparr>req_text = text, req_voice_id = str_or voice_id (tts_voice_id t),
                       req_model_id = str_or model (tts_model t)\<rparr>;
                w1 = log (TtsStream req) w
            in case tts_stream E req of
                 Inl e \<Rightarrow> (Inl e, w1)
               | Inr audio_stream \<Rightarrow>
                   (let w2 = log (Stream audio_stream) w1
                    in case stream E audio_stream of
                         Some e \<Rightarrow> (Inl e, w2)
                       | None \<Rightarrow> (Inr (), w2)))
      else (case text_to_speech E t text voice_id model None False w of
              (Inl e, w1) \<Rightarrow> (Inl e, w1)
            | (Inr audio, w1) \<Rightarrow>
                if audio_truthy audio then play_audio E audio w1 else (Inr (), w1)))"

section \<open>main.py\<close>

record voice_assistant =
  stt :: whisper_stt
  llm :: gemma_client
  tts :: elevenlabs_tts

text \<open>The \<^verbatim>\<open>try\<close> block of \<^verbatim>\<open>process_voice_input\<close>.\<close>

definition process_voice_input_body ::
  "env \<Rightarrow> voice_assistant \<Rightarrow> samples option \<Rightarrow> string option \<Rightarrow> world
     \<Rightarrow> (exn + string option) \<times> voice_assistant \<times> world"
where
  "process_voice_input_body E a audio_data audio_path w =
     (case transcribe_audio E audio_data audio_path w of
        (Inl e, w1) \<Rightarrow> (Inl e, a, w1)
      | (Inr text, w1) \<Rightarrow>
          if text = []
          then (Inr None, a, log (Print ''No speech detected or error in transcription.'') w1)
          else (case generate_response E (llm a) text None w1 of
                  (Inl e, c1, w2) \<Rightarrow> (Inl e, a\<lparr>llm := c1\<rparr>, w2)
                | (Inr response, c1, w2) \<Rightarrow>
                    if response = []
                    then (Inr None, a\<lparr>llm := c1\<rparr>, log (Print ''No response generated.'') w2)
                    else (case speak E (tts a) response None None False w2 of
                            (Inl e, w3) \<Rightarrow> (Inl e, a\<lparr>llm := c1\<rparr>, w3)
                          | (Inr u, w3) \<Rightarrow> (Inr (Some response), a\<lparr>llm := c1\<rparr>, w3))))"

text \<open>\<^verbatim>\<open>process_voice_input(audio_data, audio_path)\<close> with its \<^verbatim>\<open>except Exception\<close> branch.\<close>

definition process_voice_input ::
  "env \<Rightarrow> voice_assistant \<Rightarrow> samples option \<Rightarrow> string option \<Rightarrow> world
     \<Rightarrow> (exn + string option) \<times> voice_assistant \<times> world"
where
  "process_voice_input E a audio_data audio_path w =
     (case process_voice_input_body E a audio_data audio_path w of
        (Inl e, a1, w1) \<Rightarrow>
          (Inr None, a1, log (Print (''Error in voice processing: '' @ exn_str e)) w1)
      | (Inr reply, a1, w1) \<Rightarrow> (Inr reply, a1, w1))"

text \<open>
  A session: successive calls of \<^verbatim>\<open>process_voice_input\<close>, each with its own audio input
  and against the behaviour the external engines show during that turn.
\<close>

record turn =
  turn_env :: env
  turn_audio_data :: "samples option"
  turn_audio_path :: "string option"

fun run_turns :: "turn list \<Rightarrow> voice_assistant \<Rightarrow> world \<Rightarrow> voice_assistant \<times> world" where
  "run_turns [] a w = (a, w)"
| "run_turns (t # ts) a w =
     (case process_voice_input (turn_env t) a (turn_audio_data t) (turn_audio_path t) w of
        (r, a1, w1) \<Rightarrow> run_turns ts a1 w1)"

section \<open>Properties of the history\<close>

text \<open>
  A history made of complete exchanges: a \<^verbatim>\<open>user\<close> entry directly followed by the
  \<^verbatim>\<open>model\<close> entry that answers it, and nothing left over.
\<close>

fun complete_pairs :: "message list \<Rightarrow> bool" where
  "complete_pairs [] = True"
| "complete_pairs [m] = False"
| "complete_pairs (u # m # rest) =
     (role u = ''user'' \<and> role m = ''model'' \<and> complete_pairs rest)"

text \<open>The default of \<^verbatim>\<open>max_history\<close>, the only value the code ever passes.\<close>

definition max_history_pairs :: nat where
  "max_history_pairs = 10"

text \<open>The last \<open>n\<close> entries of a list.\<close>

definition keep_last :: "nat \<Rightarrow> 'a list \<Rightarrow> 'a list" where
  "keep_last n xs = drop (length xs - n) xs"

section \<open>Reading the trace\<close>

fun is_llm_call :: "event \<Rightarrow> bool" where
  "is_llm_call (LlmGenerate x) = True"
| "is_llm_call ev = False"

fun is_recording :: "event \<Rightarrow> bool" where
  "is_recording (SdRec frames d) = True"
| "is_recording ev = False"

fun is_synthesis_call :: "event \<Rightarrow> bool" where
  "is_synthesis_call (TtsConvert r) = True"
| "is_synthesis_call (TtsStream r) = True"
| "is_synthesis_call ev = False"

fun is_print :: "event \<Rightarrow> bool" where
  "is_print (Print m) = True"
| "is_print ev = False"

section \<open>The device resolver as the specification words it\<close>

text \<open>\<^verbatim>\<open>enumerate(xs, start)\<close>\<close>

fun enumerate_from :: "int \<Rightarrow> 'a list \<Rightarrow> (int \<times> 'a) list" where
  "enumerate_from i [] = []"
| "enumerate_from i (x # xs) = (i, x) # enumerate_from (i + 1) xs"

text \<open>The trial recording on device \<open>i\<close> completes without error.\<close>

definition trial_succeeds :: "env \<Rightarrow> int \<Rightarrow> bool" where
  "trial_succeeds E i = (case sd_rec E trial_frames i of Inr a \<Rightarrow> True | Inl e \<Rightarrow> False)"

text \<open>The enumerated devices that report at least one input channel, in order.\<close>

definition input_candidates :: "device_info list \<Rightarrow> int list" where
  "input_candidates devices =
     map fst (filter (\<lambda>(i, d). 0 < max_input_channels d) (enumerate_from 0 devices))"

text \<open>The first candidate whose trial completes.\<close>

definition resolve_device_spec :: "env \<Rightarrow> device_info list \<Rightarrow> int option" where
  "resolve_device_spec E devices = find (trial_succeeds E) (input_candidates devices)"

text \<open>The candidates that are tried: those up to and including the first success.\<close>

fun through_first :: "('a \<Rightarrow> bool) \<Rightarrow> 'a list \<Rightarrow> 'a list" where
  "through_first P [] = []"
| "through_first P (x # xs) = (if P x then [x] else x # through_first P xs)"

definition trials_spec :: "env \<Rightarrow> device_info list \<Rightarrow> int list" where
  "trials_spec E devices = through_first (trial_succeeds E) (input_candidates devices)"

section \<open>Concrete worlds and engines for the examples\<close>

definition empty_world :: world where
  "empty_world = \<lparr>lists = (\<lambda>a. []), next_addr = 0, trace = [], files = Map.empty\<rparr>"

definition example_response :: response where
  "example_response =
     Response (Some [Candidate (Some (Content (Some [Part (Some ''Hi '' ), Part None, Part (Some ''there. '')])))])"

text \<open>
  Three devices: an output-only one, a microphone whose trial recording fails, and a
  working microphone. Every other engine succeeds.
\<close>

definition example_env :: env where
  "example_env =
     \<lparr>sd_query_devices =
        Inr [\<lparr>name = ''Speakers'', max_input_channels = 0\<rparr>,
             \<lparr>name = ''Busy microphone'', max_input_channels = 2\<rparr>,
             \<lparr>name = ''Microphone'', max_input_channels = 1\<rparr>],
      sd_rec = (\<lambda>frames d. if d = 1 then Inl (EngineError ''device busy'') else Inr [0, 1 / 2]),
      path_exists = (\<lambda>p. p = ''question.wav''),
      whisper_transcribe = (\<lambda>i. Inr '' hello ''),
      llm_generate_content = (\<lambda>c. Inr example_response),
      tts_convert = (\<lambda>r. Inr (PyIter [[1, 2], [3]] None)),
      tts_stream = (\<lambda>r. Inr (PyIter [[1, 2], [3]] None)),
      open_wb = (\<lambda>p. None),
      play = (\<lambda>a. None),
      stream = (\<lambda>a. None)\<rparr>"

text \<open>The same engines, with a language model that raises.\<close>

definition llm_down_env :: env where
  "llm_down_env = example_env\<lparr>llm_generate_content := (\<lambda>c. Inl (EngineError ''quota exceeded''))\<rparr>"

text \<open>The same engines, with a synthesis engine that raises.\<close>

definition tts_down_env :: env where
  "tts_down_env =
     example_env\<lparr>tts_convert := (\<lambda>r. Inl (EngineError ''voice not found'')),
                 tts_stream := (\<lambda>r. Inl (EngineError ''voice not found''))\<rparr>"

text \<open>The same engines, with a recognizer that hears nothing.\<close>

definition silent_env :: env where
  "silent_env = example_env\<lparr>whisper_transcribe := (\<lambda>i. Inr ''  '')\<rparr>"

definition example_tts :: elevenlabs_tts where
  "example_tts = new_elevenlabs_tts (Some ''JBFqnCBsd6RMkjVDRZzb'') (Some ''eleven_flash_v2_5'')"

text \<open>A client with an empty history, and the assistant built around it.\<close>

definition example_client :: gemma_client where
  "example_client = fst (new_gemma_client ''gemma-3-27b-it'' empty_world)"

definition example_world :: world where
  "example_world = snd (new_gemma_client ''gemma-3-27b-it'' empty_world)"

definition example_assistant :: voice_assistant where
  "example_assistant = \<lparr>stt = \<lparr>device_id = Some 2\<rparr>, llm = example_client, tts = example_tts\<rparr>"

text \<open>The world after one answered turn: the client's history holds one exchange.\<close>

definition talked_world :: world where
  "talked_world =
     example_world\<lparr>lists := (lists example_world)
        (conversation_history example_client :=
           [user_message ''hello'', model_message ''Hi there. ''])\<rparr>"

text \<open>The same world, with a second list object (at address 1) that a caller holds.\<close>

definition caller_world :: world where
  "caller_world = snd (new_list [user_message ''earlier''] talked_world)"

section \<open>Lemmas\<close>

lemma log_frame [simp]:
  "lists (log ev w) = lists w" "next_addr (log ev w) = next_addr w" "files (log ev w) = files w"
  "trace (log ev w) = trace w @ [ev]"
  by (simp_all add: log_def)

lemma complete_pairs_even: "complete_pairs xs \<Longrightarrow> even (length xs)"
  by (induction xs rule: complete_pairs.induct) auto

lemma complete_pairs_append:
  "complete_pairs xs \<Longrightarrow> complete_pairs ys \<Longrightarrow> complete_pairs (xs @ ys)"
  by (induction xs rule: complete_pairs.induct) auto

lemma complete_pairs_drop2: "complete_pairs xs \<Longrightarrow> complete_pairs (drop (2 * k) xs)"
proof (induction k arbitrary: xs)
  case 0 then show ?case by simp
next
  case (Suc k)
  show ?case
  proof (cases xs rule: complete_pairs.cases)
    case 1 then show ?thesis by simp
  next
    case (2 m) with Suc.prems show ?thesis by simp
  next
    case (3 u m rest)
    with Suc.prems have "complete_pairs rest" by simp
    from Suc.IH[OF this] 3 show ?thesis by simp
  qed
qed

lemma complete_pairs_exchange: "complete_pairs [user_message p, model_message r]"
  by (simp add: user_message_def model_message_def)


lemma nat_int_minus: "0 \<le> k \<Longrightarrow> nat (int n - k) = n - nat k"
  by arith

lemma update_history_value:
  "update_conversation_history c p r 10 w = (c1, w1) \<Longrightarrow>
   history w1 c1 = keep_last 20 (history w c @ [user_message p, model_message r])"
  by (auto simp: update_conversation_history_def Let_def history_def list_append_def new_list_def
       slice_from_def keep_last_def nat_int_minus split: if_splits prod.splits)

lemma update_history_next:
  "update_conversation_history c p r 10 w = (c1, w1) \<Longrightarrow>
   conversation_history c < next_addr w \<Longrightarrow> conversation_history c1 < next_addr w1"
  by (auto simp: update_conversation_history_def Let_def history_def list_append_def new_list_def
       slice_from_def split: if_splits prod.splits)

lemma keep_last_pairs:
  assumes "complete_pairs h" "length h \<le> 20"
  shows "complete_pairs (keep_last 20 (h @ [user_message p, model_message r]))"
    and "length (keep_last 20 (h @ [user_message p, model_message r])) \<le> 20"
proof -
  let ?h = "h @ [user_message p, model_message r]"
  have cp: "complete_pairs ?h"
    using assms(1) complete_pairs_exchange by (rule complete_pairs_append)
  have "even (length ?h)" using cp by (rule complete_pairs_even)
  then obtain j where j: "length ?h = 2 * j" by (rule evenE)
  have k: "length ?h - 20 = 2 * (j - 10)" unfolding j by arith
  show "complete_pairs (keep_last 20 ?h)"
    unfolding keep_last_def k using cp by (rule complete_pairs_drop2)
  show "length (keep_last 20 ?h) \<le> 20"
    by (simp add: keep_last_def)
qed

lemma prepare_content_history:
  assumes "conversation_history c < next_addr w" "context \<noteq> Some (conversation_history c)"
  shows "history (snd (prepare_content c prompt context w)) c = history w c"
    and "conversation_history c < next_addr (snd (prepare_content c prompt context w))"
  using assms
  by (cases "context"; auto simp: prepare_content_def Let_def history_def list_append_def new_list_def)+

lemma prepare_content_None:
  "conversation_history c < next_addr w \<Longrightarrow> \<not> list_truthy w context \<Longrightarrow>
   fst (prepare_content c prompt context w) =
     (if history w c = [] then Prompt prompt else Messages (history w c @ [user_message prompt]))"
  by (cases "context"; auto simp: prepare_content_def Let_def history_def list_append_def new_list_def)

lemma generate_response_body_None:
  assumes wf: "conversation_history c < next_addr w"
      and run: "generate_response_body E c p None w = (r, c1, w1)"
  shows "conversation_history c1 < next_addr w1"
    and "history w1 c1 = history w c \<or>
         (\<exists>t. history w1 c1 = keep_last 20 (history w c @ [user_message p, model_message t]))"
proof -
  obtain ci w0 where pc: "prepare_content c p None w = (ci, w0)" by (cases "prepare_content c p None w")
  have h0: "history w0 c = history w c" and n0: "conversation_history c < next_addr w0"
    using prepare_content_history[OF wf, of None p] pc by simp_all
  let ?w2 = "log (LlmGenerate ci) w0"
  have h2: "history ?w2 c = history w c" using h0 by (simp add: history_def)
  have n2: "conversation_history c < next_addr ?w2" using n0 by simp
  have "conversation_history c1 < next_addr w1 \<and> (history w1 c1 = history w c \<or>
         (\<exists>t. history w1 c1 = keep_last 20 (history w c @ [user_message p, model_message t])))"
  proof (cases "llm_generate_content E ci")
    case (Inl e)
    with run pc have "c1 = c" "w1 = ?w2" by (simp_all add: generate_response_body_def)
    with h2 n2 show ?thesis by simp
  next
    case (Inr resp)
    show ?thesis
    proof (cases "extract_text resp")
      case (Inl e)
      with run pc Inr have "c1 = c" "w1 = ?w2" by (simp_all add: generate_response_body_def)
      with h2 n2 show ?thesis by simp
    next
      case ct: (Inr content_text)
      show ?thesis
      proof (cases "content_text = []")
        case True
        with run pc Inr ct have "c1 = c" "w1 = ?w2" by (simp_all add: generate_response_body_def)
        with h2 n2 show ?thesis by simp
      next
        case False
        with run pc Inr ct have u: "update_conversation_history c p content_text 10 ?w2 = (c1, w1)"
          by (auto simp: generate_response_body_def split: prod.splits)
        from update_history_value[OF u] update_history_next[OF u n2] h2
        show ?thesis by auto
      qed
    qed
  qed
  then show "conversation_history c1 < next_addr w1"
    and "history w1 c1 = history w c \<or>
         (\<exists>t. history w1 c1 = keep_last 20 (history w c @ [user_message p, model_message t]))"
    by simp_all
qed

lemma generate_response_None:
  assumes wf: "conversation_history c < next_addr w"
      and run: "generate_response E c p None w = (r, c1, w1)"
  shows "conversation_history c1 < next_addr w1"
    and "history w1 c1 = history w c \<or>
         (\<exists>t. history w1 c1 = keep_last 20 (history w c @ [user_message p, model_message t]))"
proof -
  obtain rb cb wb where b: "generate_response_body E c p None w = (rb, cb, wb)"
    by (cases "generate_response_body E c p None w")
  from run b have c1: "c1 = cb" and l: "lists w1 = lists wb" and n: "next_addr w1 = next_addr wb"
    by (auto simp: generate_response_def split: sum.splits)
  have hh: "history w1 c1 = history wb cb" using c1 l by (simp add: history_def)
  from generate_response_body_None[OF wf b] c1 n hh
  show "conversation_history c1 < next_addr w1"
    and "history w1 c1 = history w c \<or>
         (\<exists>t. history w1 c1 = keep_last 20 (history w c @ [user_message p, model_message t]))"
    by simp_all
qed

lemma generate_response_returns: "\<exists>text. fst (generate_response E c p cx w) = Inr text"
proof -
  obtain rb cb wb where b: "generate_response_body E c p cx w = (rb, cb, wb)"
    by (cases "generate_response_body E c p cx w")
  show ?thesis by (cases rb) (simp_all add: generate_response_def b)
qed

lemma example_client_simps:
  "conversation_history example_client = 0" "next_addr example_world = 1"
  "lists example_world = (\<lambda>a. [])"
  by (simp_all add: example_client_def example_world_def new_gemma_client_def new_list_def
        empty_world_def fun_eq_iff)

lemma five_seconds: "py_int (5 * of_int sample_rate) = 80000"
  by (simp add: py_int_def sample_rate_def)

lemma transcribe_audio_returns: "\<exists>text. fst (transcribe_audio E audio_data audio_path w) = Inr text"
proof -
  obtain r w1 where b: "transcribe_audio_body E audio_data audio_path w = (r, w1)"
    by (cases "transcribe_audio_body E audio_data audio_path w")
  show ?thesis by (cases r) (simp_all add: transcribe_audio_def b)
qed

lemma generate_response_lists:
  assumes "list_truthy w (Some a)"
  shows "lists (snd (snd (generate_response E c prompt (Some a) w))) = (lists w)(a := lists w a @ [user_message prompt])"
proof -
  let ?w1 = "list_append a (user_message prompt) w"
  let ?ci = "Messages (lists w a @ [user_message prompt])"
  let ?w2 = "log (LlmGenerate ?ci) ?w1"
  have pc: "prepare_content c prompt (Some a) w = (?ci, ?w1)"
    using assms by (simp add: prepare_content_def list_append_def)
  have t2: "list_truthy ?w2 (Some a)" by (simp add: list_append_def)
  have l2: "lists ?w2 = (lists w)(a := lists w a @ [user_message prompt])"
    by (simp add: list_append_def)
  have "\<exists>r. generate_response_body E c prompt (Some a) w = (r, c, ?w2)"
  proof (cases "llm_generate_content E ?ci")
    case (Inl e)
    then show ?thesis by (simp add: generate_response_body_def pc)
  next
    case (Inr resp)
    show ?thesis
    proof (cases "extract_text resp")
      case (Inl e)
      with Inr show ?thesis by (simp add: generate_response_body_def pc)
    next
      case ct: (Inr content_text)
      show ?thesis
      proof (cases "content_text = []")
        case True
        with Inr ct show ?thesis by (simp add: generate_response_body_def pc)
      next
        case False
        with Inr ct t2 show ?thesis by (simp add: generate_response_body_def pc)
      qed
    qed
  qed
  then obtain r where b: "generate_response_body E c prompt (Some a) w = (r, c, ?w2)" ..
  show ?thesis using l2 by (cases r) (simp_all add: generate_response_def b)
qed

lemma caller_world_simps:
  "next_addr caller_world = 2"
  "lists caller_world 0 = [user_message ''hello'', model_message ''Hi there. '']"
  "lists caller_world 1 = [user_message ''earlier'']"
  "lists caller_world (Suc 0) = [user_message ''earlier'']"
  by (simp_all add: caller_world_def new_list_def talked_world_def example_client_simps)

lemma trial_frames_value: "trial_frames = 1600"
  by (simp add: trial_frames_def py_int_def sample_rate_def)

lemma probe_devices_result:
  "fst (probe_devices E i devices w) =
     find (trial_succeeds E)
       (map fst (filter (\<lambda>(i, d). 0 < max_input_channels d) (enumerate_from i devices)))"
  by (induction devices arbitrary: i w)
     (auto simp: trial_succeeds_def Let_def split: sum.splits)

lemma probe_devices_trace:
  "trace (snd (probe_devices E i devices w)) =
     trace w @ map (SdRec trial_frames)
       (through_first (trial_succeeds E)
          (map fst (filter (\<lambda>(i, d). 0 < max_input_channels d) (enumerate_from i devices))))"
  by (induction devices arbitrary: i w)
     (auto simp: trial_succeeds_def Let_def split: sum.splits)

lemma filter_recording_map: "filter is_recording (map (SdRec f) xs) = map (SdRec f) xs"
  by (induction xs) auto

lemma file_write_frame [simp]:
  "lists (file_write p ch w) = lists w" "next_addr (file_write p ch w) = next_addr w"
  "trace (file_write p ch w) = trace w"
  by (simp_all add: file_write_def)

lemma write_each_frame [simp]:
  "lists (write_each p chunks w) = lists w" "next_addr (write_each p chunks w) = next_addr w"
  "trace (write_each p chunks w) = trace w"
  by (induction chunks arbitrary: w) simp_all

lemma write_each_files:
  "files w p = Some old \<Longrightarrow> files (write_each p chunks w) p = Some (old @ concat chunks)"
  by (induction chunks arbitrary: w old) (simp_all add: file_write_def)

lemma write_chunks_frame [simp]:
  "lists (snd (write_chunks p a w)) = lists w" "next_addr (snd (write_chunks p a w)) = next_addr w"
  "trace (snd (write_chunks p a w)) = trace w"
  by (induction p a w rule: write_chunks.induct) simp_all

lemma save_audio_file_frame [simp]:
  "lists (snd (save_audio_file E p a w)) = lists w"
  "next_addr (snd (save_audio_file E p a w)) = next_addr w"
  "trace (snd (save_audio_file E p a w)) = trace w @ [OpenWb p]"
  by (simp_all add: save_audio_file_def Let_def split: option.splits)

lemma save_audio_file_iter:
  "open_wb E p = None \<Longrightarrow>
   fst (save_audio_file E p (PyIter chunks None) w) = Inr (PyIter [] None) \<and>
   files (snd (save_audio_file E p (PyIter chunks None) w)) p = Some (concat chunks)"
  using write_each_files[of "(log (OpenWb p) w)\<lparr>files := (files (log (OpenWb p) w))(p \<mapsto> [])\<rparr>" p "[]" chunks]
  by (simp add: save_audio_file_def Let_def)

lemma save_audio_file_frame_pair:
  "save_audio_file E p a w0 = (r, w2) \<Longrightarrow> lists w2 = lists w0 \<and> next_addr w2 = next_addr w0"
  using save_audio_file_frame(1,2)[of E p a w0] by simp

lemma text_to_speech_body_frame [simp]:
  "lists (snd (text_to_speech_body E t tx v m sp st w)) = lists w"
  "next_addr (snd (text_to_speech_body E t tx v m sp st w)) = next_addr w"
  unfolding text_to_speech_body_def Let_def
  by (auto split: sum.splits prod.splits dest!: save_audio_file_frame_pair)

lemma text_to_speech_returns:
  "\<exists>audio. fst (text_to_speech E t tx v m sp st w) = Inr audio"
proof -
  obtain r w1 where b: "text_to_speech_body E t tx v m sp st w = (r, w1)"
    by (cases "text_to_speech_body E t tx v m sp st w")
  show ?thesis by (cases r) (simp_all add: text_to_speech_def b)
qed

lemma text_to_speech_frame [simp]:
  "lists (snd (text_to_speech E t tx v m sp st w)) = lists w"
  "next_addr (snd (text_to_speech E t tx v m sp st w)) = next_addr w"
proof -
  obtain r w1 where b: "text_to_speech_body E t tx v m sp st w = (r, w1)"
    by (cases "text_to_speech_body E t tx v m sp st w")
  have "lists w1 = lists w" "next_addr w1 = next_addr w"
    using text_to_speech_body_frame[of E t tx v m sp st w] b by simp_all
  then show "lists (snd (text_to_speech E t tx v m sp st w)) = lists w"
    "next_addr (snd (text_to_speech E t tx v m sp st w)) = next_addr w"
    by (cases r; simp add: text_to_speech_def b)+
qed

lemma play_audio_returns: "fst (play_audio E a w) = Inr ()"
  by (simp add: play_audio_def Let_def split: option.splits)

lemma play_audio_frame [simp]:
  "lists (snd (play_audio E a w)) = lists w" "next_addr (snd (play_audio E a w)) = next_addr w"
  by (simp_all add: play_audio_def Let_def split: option.splits)

lemma speak_buffered_returns: "fst (speak E t tx v m False w) = Inr ()"
proof -
  obtain r w1 where b: "text_to_speech E t tx v m None False w = (r, w1)"
    by (cases "text_to_speech E t tx v m None False w")
  from text_to_speech_returns[of E t tx v m None False w] b
  obtain audio where "r = Inr audio" by auto
  then show ?thesis by (simp add: speak_def b play_audio_returns)
qed

lemma speak_buffered_frame [simp]:
  "lists (snd (speak E t tx v m False w)) = lists w"
  "next_addr (snd (speak E t tx v m False w)) = next_addr w"
proof -
  obtain r w1 where b: "text_to_speech E t tx v m None False w = (r, w1)"
    by (cases "text_to_speech E t tx v m None False w")
  have f: "lists w1 = lists w" "next_addr w1 = next_addr w"
    using text_to_speech_frame[of E t tx v m None False w] b by simp_all
  from text_to_speech_returns[of E t tx v m None False w] b
  obtain audio where "r = Inr audio" by auto
  then show "lists (snd (speak E t tx v m False w)) = lists w"
    "next_addr (snd (speak E t tx v m False w)) = next_addr w"
    using f by (simp_all add: speak_def b)
qed

section \<open>The claims\<close>



text \<open>
  C5, as stated, fails: with device 1 selected and a recording call that raises,
  \<^verbatim>\<open>record_audio\<close> does not fail with an error; it returns \<^verbatim>\<open>None\<close>.
\<close>

theorem record_audio_returns_none_counterexample:
  "fst (record_audio example_env \<lparr>device_id = Some 1\<rparr> 5 empty_world) = Inr None"
  by (simp add: record_audio_def example_env_def Let_def)

text \<open>
  C5, amended. \<^verbatim>\<open>record_audio(duration)\<close> raises \<^verbatim>\<open>RuntimeError\<close> when the device
  handle is \<^verbatim>\<open>None\<close>, before any recording is attempted. When the recording call raises,
  the exception is absorbed: a diagnostic is printed and \<^verbatim>\<open>None\<close> is returned. When the
  recording call returns, the recorded buffer is returned.
\<close>

theorem record_audio_outcomes:
  "(device_id s = None \<longrightarrow>
      record_audio E s duration w = (Inl (RuntimeError no_device_message), w)) \<and>
   (device_id s = Some d \<and> sd_rec E (py_int (duration * of_int sample_rate)) d = Inl e \<longrightarrow>
      record_audio E s duration w =
        (Inr None,
         log (Print (''Error during recording: '' @ exn_str e))
           (log (SdRec (py_int (duration * of_int sample_rate)) d) w))) \<and>
   (device_id s = Some d \<and> sd_rec E (py_int (duration * of_int sample_rate)) d = Inr audio_data \<longrightarrow>
      record_audio E s duration w =
        (Inr (Some audio_data), log (SdRec (py_int (duration * of_int sample_rate)) d) w))"
  by (simp add: record_audio_def Let_def)

theorem record_audio_outcomes_witness:
  "fst (record_audio example_env \<lparr>device_id = None\<rparr> 5 empty_world) = Inl (RuntimeError no_device_message) \<and>
   trace (snd (record_audio example_env \<lparr>device_id = None\<rparr> 5 empty_world)) = [] \<and>
   fst (record_audio example_env \<lparr>device_id = Some 1\<rparr> 5 empty_world) = Inr None \<and>
   trace (snd (record_audio example_env \<lparr>device_id = Some 1\<rparr> 5 empty_world)) =
     [SdRec 80000 1, Print ''Error during recording: device busy''] \<and>
   fst (record_audio example_env \<lparr>device_id = Some 2\<rparr> 5 empty_world) = Inr (Some [0, 1 / 2])"
  using record_audio_outcomes[where s="\<lparr>device_id = None\<rparr>" and E=example_env and duration=5 and w=empty_world]
        record_audio_outcomes[where s="\<lparr>device_id = Some 1\<rparr>" and d=1 and E=example_env and duration=5
           and e="EngineError ''device busy''" and w=empty_world]
        record_audio_outcomes[where s="\<lparr>device_id = Some 2\<rparr>" and d=2 and E=example_env and duration=5
           and audio_data="[0, 1 / 2]" and w=empty_world]
  by (simp add: five_seconds example_env_def empty_world_def log_def)

text \<open>
  C6, as stated, fails: called with neither a buffer nor a path, \<^verbatim>\<open>transcribe_audio\<close>
  returns the empty string; no error reaches the caller.
\<close>

theorem transcribe_audio_no_input_counterexample:
  "fst (transcribe_audio example_env None None empty_world) = Inr []"
  by (simp add: transcribe_audio_def transcribe_audio_body_def)

text \<open>
  C6, amended. Called without a buffer and without a path that names an existing file,
  the body of \<^verbatim>\<open>transcribe_audio\<close> raises \<^verbatim>\<open>ValueError\<close> without calling the
  recognizer; the \<^verbatim>\<open>except\<close> branch of the same function absorbs it, prints a
  diagnostic and returns the empty transcript.
\<close>

theorem transcribe_audio_without_input:
  assumes "\<not> (str_truthy audio_path \<and> path_exists E (the audio_path))"
  shows "transcribe_audio_body E None audio_path w =
           (Inl (ValueError ''Either audio_data or audio_path must be provided''), w) \<and>
         transcribe_audio E None audio_path w =
           (Inr [],
            log (Print ''Error during transcription: Either audio_data or audio_path must be provided'') w)"
  using assms by (auto simp add: transcribe_audio_def transcribe_audio_body_def)

theorem transcribe_audio_without_input_witness:
  "transcribe_audio example_env None (Some ''missing.wav'') empty_world =
     (Inr [],
      log (Print ''Error during transcription: Either audio_data or audio_path must be provided'')
        empty_world)"
proof -
  have "\<not> (str_truthy (Some ''missing.wav'') \<and> path_exists example_env (the (Some ''missing.wav'')))"
    by (simp add: example_env_def)
  from transcribe_audio_without_input[OF this] show ?thesis by simp
qed

text \<open>
  C9, as stated, fails for an explicit context list that is empty: the caller passes the
  empty list stored at address 1, and after the call that list is still empty; the prompt
  was not appended to it.
\<close>

theorem empty_context_not_appended_counterexample:
  "lists (snd (snd (generate_response example_env example_client ''hi'' (Some 1)
            (snd (new_list [] example_world))))) 1 = []"
  by (simp add: generate_response_def generate_response_body_def prepare_content_def
        new_list_def example_client_simps history_def example_env_def example_response_def
        extract_text_def update_conversation_history_def list_append_def Let_def log_def)

text \<open>
  C9, amended. When \<^verbatim>\<open>generate_response\<close> is called with a context list that is not
  empty, the model input is that list followed by the new user entry, and after the call,
  whatever the model did, the caller's own list object holds that extra entry: it was
  appended in place. With no context, the model input is assembled on a copy: the stored
  history is the same after the message-assembly step, and the model receives the history
  followed by the new user entry (or the bare prompt when the history is empty).
\<close>

theorem generate_response_context_aliasing:
  "(list_truthy w (Some a) \<longrightarrow>
      fst (prepare_content c prompt (Some a) w) = Messages (lists w a @ [user_message prompt]) \<and>
      lists (snd (snd (generate_response E c prompt (Some a) w))) a =
        lists w a @ [user_message prompt]) \<and>
   (conversation_history c < next_addr w \<longrightarrow>
      history (snd (prepare_content c prompt None w)) c = history w c \<and>
      fst (prepare_content c prompt None w) =
        (if history w c = [] then Prompt prompt
         else Messages (history w c @ [user_message prompt])))"
proof (intro conjI impI)
  assume t: "list_truthy w (Some a)"
  then show "fst (prepare_content c prompt (Some a) w) = Messages (lists w a @ [user_message prompt])"
    by (simp add: prepare_content_def list_append_def)
  show "lists (snd (snd (generate_response E c prompt (Some a) w))) a =
        lists w a @ [user_message prompt]"
    by (simp add: generate_response_lists[OF t])
next
  assume al: "conversation_history c < next_addr w"
  show "history (snd (prepare_content c prompt None w)) c = history w c"
    using prepare_content_history(1)[OF al, of None prompt] by simp
  show "fst (prepare_content c prompt None w) =
        (if history w c = [] then Prompt prompt
         else Messages (history w c @ [user_message prompt]))"
    using prepare_content_None[OF al, of None prompt] by simp
qed

theorem generate_response_context_aliasing_witness:
  "lists (snd (snd (generate_response llm_down_env example_client ''hi'' (Some 1) caller_world))) 1 =
     [user_message ''earlier'', user_message ''hi''] \<and>
   history (snd (prepare_content example_client ''hi'' None caller_world)) example_client =
     [user_message ''hello'', model_message ''Hi there. ''] \<and>
   fst (prepare_content example_client ''hi'' None caller_world) =
     Messages [user_message ''hello'', model_message ''Hi there. '', user_message ''hi'']"
  using generate_response_context_aliasing[where w=caller_world and a=1 and c=example_client
          and prompt="''hi''" and E=llm_down_env]
  by (simp add: caller_world_simps example_client_simps history_def)

text \<open>
  C8. When the platform enumerates its devices, \<^verbatim>\<open>_find_working_device\<close> returns what
  the specification describes: the devices are taken in the order of the enumeration,
  those without an input channel are skipped, each remaining candidate is given a trial
  recording of 1600 frames (0.1 second at 16 kHz) until one trial completes, and that
  first candidate is returned. The trial recordings made are those of the candidates up
  to and including the first success, in order. When the enumeration is empty the result
  is \<^verbatim>\<open>None\<close> and no trial recording is made.
\<close>

theorem find_working_device_spec:
  assumes "sd_query_devices E = Inr devices"
  shows "fst (find_working_device E w) = resolve_device_spec E devices \<and>
         filter is_recording (trace (snd (find_working_device E w))) =
           filter is_recording (trace w) @ map (SdRec trial_frames) (trials_spec E devices) \<and>
         trial_frames = 1600 \<and>
         (devices = [] \<longrightarrow>
            fst (find_working_device E w) = None \<and>
            filter is_recording (trace (snd (find_working_device E w))) =
              filter is_recording (trace w))"
proof -
  let ?w1 = "log QueryDevices w"
  obtain r w2 where p: "probe_devices E 0 devices ?w1 = (r, w2)"
    by (cases "probe_devices E 0 devices ?w1")
  have r: "r = resolve_device_spec E devices"
    using probe_devices_result[of E 0 devices ?w1] p
    by (simp add: resolve_device_spec_def input_candidates_def)
  have t: "trace w2 = trace ?w1 @ map (SdRec trial_frames) (trials_spec E devices)"
    using probe_devices_trace[of E 0 devices ?w1] p
    by (simp add: trials_spec_def input_candidates_def)
  have f: "fst (find_working_device E w) = r"
    by (cases r) (simp_all add: find_working_device_def assms p)
  have g: "filter is_recording (trace (snd (find_working_device E w))) =
           filter is_recording (trace w2)"
    by (cases r) (simp_all add: find_working_device_def assms p)
  have h: "filter is_recording (trace w2) =
           filter is_recording (trace w) @ map (SdRec trial_frames) (trials_spec E devices)"
    by (simp add: t filter_recording_map)
  have e: "devices = [] \<Longrightarrow> resolve_device_spec E devices = None \<and> trials_spec E devices = []"
    by (simp add: resolve_device_spec_def trials_spec_def input_candidates_def)
  show ?thesis using r f g h e trial_frames_value by simp
qed

theorem find_working_device_spec_witness:
  "fst (find_working_device example_env empty_world) = Some 2 \<and>
   filter is_recording (trace (snd (find_working_device example_env empty_world))) =
     [SdRec 1600 1, SdRec 1600 2]"
proof -
  have q: "sd_query_devices example_env =
        Inr [\<lparr>name = ''Speakers'', max_input_channels = 0\<rparr>,
             \<lparr>name = ''Busy microphone'', max_input_channels = 2\<rparr>,
             \<lparr>name = ''Microphone'', max_input_channels = 1\<rparr>]"
    by (simp add: example_env_def)
  have s: "trial_succeeds example_env 2" "\<not> trial_succeeds example_env 1"
    by (simp_all add: trial_succeeds_def example_env_def)
  from find_working_device_spec[OF q, of empty_world] s
  show ?thesis
    by (simp add: resolve_device_spec_def trials_spec_def input_candidates_def empty_world_def)
qed

end
